theory Spec2Isabelle
  imports Complex_Main
begin

section \<open>Values, errors and the client's world\<close>

text \<open>
  The request pipeline of \<^verbatim>\<open>ApiClient\<close> (apiClient.ts) is embedded with explicit state
  passing. A value of JavaScript's \<^verbatim>\<open>any\<close> that travels as JSON (query parameters,
  request bodies, response payloads) is a \<open>jsonval\<close>; an object is the list of its own
  properties in enumeration order. Numbers are modelled as integers.
\<close>

datatype jsonval =
    JNull
  | JBool bool
  | JNum int
  | JStr string
  | JArr "jsonval list"
  | JObj "(string \<times> jsonval) list"

text \<open>JavaScript truthiness, as used by \<^verbatim>\<open>||\<close> and \<^verbatim>\<open>if (x)\<close>.\<close>

fun truthy :: "jsonval \<Rightarrow> bool" where
  "truthy JNull = False"
| "truthy (JBool b) = b"
| "truthy (JNum n) = (n \<noteq> 0)"
| "truthy (JStr s) = (s \<noteq> [])"
| "truthy (JArr xs) = True"
| "truthy (JObj kvs) = True"

text \<open>
  A rejected promise or a thrown exception is a value of type \<open>error\<close>; an asynchronous
  function returns \<open>error + 'a\<close> together with the world it leaves behind.
  \<^verbatim>\<open>error.response?.status\<close> is \<open>status\<close>.
\<close>

datatype error =
    HttpError nat jsonval
  | NetworkError string
  | TypeError string
  | SyntaxError string

fun status :: "error \<Rightarrow> nat option" where
  "status (HttpError n body) = Some n"
| "status (NetworkError m) = None"
| "status (TypeError m) = None"
| "status (SyntaxError m) = None"

text \<open>
  \<^verbatim>\<open>interface AuthTokens { access: string; refresh: string }\<close>. The pair is read back
  from storage with \<^verbatim>\<open>JSON.parse\<close> and written with a field taken from a response of
  type \<^verbatim>\<open>any\<close>, so a field may be missing at run time: \<open>None\<close> is a missing
  (\<^verbatim>\<open>undefined\<close>) property.
\<close>

record AuthTokens =
  access :: "string option"
  refresh :: "string option"

text \<open>\<^verbatim>\<open>private cache: Record<string, { data: any; expiry: number }>\<close>\<close>

record CacheEntry =
  data :: jsonval
  expiry :: int

text \<open>What the transport puts on the wire for one dispatch of the axios instance.\<close>

record wire =
  w_method :: string
  w_url :: string
  w_params :: "jsonval option"
  w_body :: "jsonval option"
  w_auth :: "string option"

text \<open>
  The text held by the storage slot under \<^verbatim>\<open>tokenStorageKey\<close>. It is either the
  JSON text of a pair, as \<^verbatim>\<open>storeTokens\<close> writes it with \<^verbatim>\<open>JSON.stringify\<close>
  (\<^verbatim>\<open>JSON.parse\<close> gives the pair back, without the properties that were
  \<^verbatim>\<open>undefined\<close>), or some other text. The latter arises inside the repository:
  \<^verbatim>\<open>AuthService.register\<close> calls \<^verbatim>\<open>storeTokens(response.tokens)\<close>, and for a
  reply without \<^verbatim>\<open>tokens\<close> the call \<^verbatim>\<open>setItem(key, undefined)\<close> leaves the text
  \<^verbatim>\<open>undefined\<close> in \<^verbatim>\<open>window.localStorage\<close>.
\<close>

datatype stored =
    Serialized AuthTokens
  | Unparsable string

text \<open>
  The world of one client: the storage slot (its text, or nothing), the cache, the clock read by
  \<^verbatim>\<open>Date.now()\<close> in milliseconds, and the observable effects: the delays passed to
  \<^verbatim>\<open>setTimeout\<close>, the requests dispatched through the axios instance, the refresh
  tokens posted to the refresh endpoint, the number of times \<^verbatim>\<open>onAuthError\<close> ran.
  \<open>remote\<close> is the state of whatever answers the network calls.
\<close>

record 'n world =
  tokens :: "stored option"
  cache :: "string \<rightharpoonup> CacheEntry"
  now :: int
  sleeps :: "int list"
  sent :: "wire list"
  refresh_posts :: "string list"
  auth_errors :: nat
  remote :: 'n

type_synonym ('n, 'a) async = "'n world \<Rightarrow> (error + 'a) \<times> 'n world"

section \<open>Retry helper\<close>

text \<open>\<^verbatim>\<open>await new Promise(resolve => setTimeout(resolve, retryDelay))\<close>\<close>

definition sleep :: "int \<Rightarrow> 'n world \<Rightarrow> 'n world" where
  "sleep d w = w\<lparr>sleeps := sleeps w @ [d], now := now w + max 0 d\<rparr>"

text \<open>
  \<^verbatim>\<open>
  private async withRetry<T>(requestFn, retryCount, retryDelay): Promise<T> {
    try {
      return await requestFn()
    } catch (error) {
      if (retryCount <= 0) throw error
      await new Promise(resolve => setTimeout(resolve, retryDelay))
      return this.withRetry(requestFn, retryCount - 1, retryDelay * 2)
    }
  }
  \<close>
\<close>

function withRetry :: "('n, 'a) async \<Rightarrow> int \<Rightarrow> int \<Rightarrow> ('n, 'a) async" where
  "withRetry requestFn retryCount retryDelay w =
     (case requestFn w of
        (Inr v, w') \<Rightarrow> (Inr v, w')
      | (Inl err, w') \<Rightarrow>
          if retryCount \<le> 0 then (Inl err, w')
          else withRetry requestFn (retryCount - 1) (retryDelay * 2) (sleep retryDelay w'))"
  by pat_completeness auto
termination
  by (relation "measure (\<lambda>(requestFn, retryCount, retryDelay, w). nat retryCount)") auto

declare withRetry.simps [simp del]

text \<open>
  An operation that records its own invocations, as a test double does: invocation
  number \<open>i\<close> (counted in \<open>remote\<close>) settles with \<open>outcome i\<close>.
\<close>

definition scripted :: "(nat \<Rightarrow> error + 'a) \<Rightarrow> (nat, 'a) async" where
  "scripted outcome w = (outcome (remote w), w\<lparr>remote := Suc (remote w)\<rparr>)"

text \<open>
  The world in which attempt number \<open>i\<close> (from 0) of \<open>withRetry requestFn _ d\<close> starts
  when every earlier attempt has failed: each earlier attempt has run and has been
  followed by its wait, \<open>d\<close> after the first, twice the previous one after each other.
\<close>

fun attemptWorld :: "('n, 'a) async \<Rightarrow> int \<Rightarrow> nat \<Rightarrow> 'n world \<Rightarrow> 'n world" where
  "attemptWorld requestFn d 0 w = w"
| "attemptWorld requestFn d (Suc i) w = attemptWorld requestFn (d * 2) i (sleep d (snd (requestFn w)))"

text \<open>The waits \<open>d, 2d, 4d, ...\<close> before retries \<open>1 .. k\<close>.\<close>

definition backoff :: "int \<Rightarrow> nat \<Rightarrow> int list" where
  "backoff d k = map (\<lambda>i. d * 2 ^ i) [0..<k]"

section \<open>Configuration\<close>

text \<open>
  \<^verbatim>\<open>ApiClientConfig\<close> (types.ts), restricted to the options read by the functions
  modelled here. An optional property that is absent is \<open>None\<close>. The callback
  \<^verbatim>\<open>onAuthError?: () => void\<close> is user code: the model records whether one is
  configured and counts its invocations in \<open>auth_errors\<close>.
\<close>

record Endpoints =
  ep_login :: string
  ep_refresh :: string
  ep_register :: "string option"
  ep_logout :: "string option"

record ApiClientConfig =
  baseURL :: string
  authEndpoints :: "Endpoints option"
  enableCache :: "bool option"
  cacheDuration :: "int option"
  enableRetry :: "bool option"
  retryCount :: "int option"
  retryDelay :: "int option"
  onAuthError :: bool

text \<open>
  \<^verbatim>\<open>RequestOptions\<close> (types.ts): the per-call overrides and, of the pass-through axios
  options, the query parameters. An omitted \<^verbatim>\<open>options\<close> argument is the record with
  every field \<open>None\<close> (\<^verbatim>\<open>options || {}\<close>).
\<close>

record RequestOptions =
  o_cache :: "bool option"
  o_cacheDuration :: "int option"
  o_retry :: "bool option"
  o_retryCount :: "int option"
  o_retryDelay :: "int option"
  o_params :: "jsonval option"

text \<open>
  The constructor: \<^verbatim>\<open>this.config = { ...defaultConfig, ...config }\<close>, a property of
  \<^verbatim>\<open>config\<close> replacing the default of the same name.
\<close>

definition defaultEndpoints :: Endpoints where
  "defaultEndpoints =
     \<lparr>ep_login = ''/auth/token/'', ep_refresh = ''/auth/token/refresh/'',
      ep_register = Some ''/auth/register/'', ep_logout = None\<rparr>"

definition orDefault :: "'a option \<Rightarrow> 'a \<Rightarrow> 'a option" where
  "orDefault given dflt = (case given of Some x \<Rightarrow> Some x | None \<Rightarrow> Some dflt)"

definition mergeConfig :: "ApiClientConfig \<Rightarrow> ApiClientConfig" where
  "mergeConfig config =
     config\<lparr>authEndpoints := orDefault (authEndpoints config) defaultEndpoints,
            enableCache := orDefault (enableCache config) True,
            cacheDuration := orDefault (cacheDuration config) (5 * 60 * 1000),
            enableRetry := orDefault (enableRetry config) True,
            retryCount := orDefault (retryCount config) 3,
            retryDelay := orDefault (retryDelay config) 1000\<rparr>"

text \<open>
  \<^verbatim>\<open>a || d\<close> on an optional number: the left operand unless it is falsy
  (\<^verbatim>\<open>undefined\<close> or \<^verbatim>\<open>0\<close>).
\<close>

fun numOr :: "int option \<Rightarrow> int \<Rightarrow> int" where
  "numOr None d = d"
| "numOr (Some n) d = (if n \<noteq> 0 then n else d)"

text \<open>
  The option resolution at the head of \<^verbatim>\<open>get\<close>:
  \<^verbatim>\<open>
  const useCache = cache !== undefined ? cache : this.config.enableCache
  const cacheTime = cacheDuration || this.config.cacheDuration || 5 * 60 * 1000
  const shouldRetry = retry !== undefined ? retry : this.config.enableRetry
  const maxRetries = retryCount || this.config.retryCount || 3
  const delay = retryDelay || this.config.retryDelay || 1000
  \<close>
  \<open>useCache\<close> and \<open>shouldRetry\<close> are only ever tested for truthiness, so an
  \<^verbatim>\<open>undefined\<close> result reads as \<open>False\<close>.
\<close>

definition useCache :: "ApiClientConfig \<Rightarrow> RequestOptions \<Rightarrow> bool" where
  "useCache cfg opts =
     (case o_cache opts of
        Some b \<Rightarrow> b
      | None \<Rightarrow> (case enableCache cfg of Some b \<Rightarrow> b | None \<Rightarrow> False))"

definition cacheTime :: "ApiClientConfig \<Rightarrow> RequestOptions \<Rightarrow> int" where
  "cacheTime cfg opts =
     numOr (o_cacheDuration opts) (numOr (cacheDuration cfg) (5 * 60 * 1000))"

definition shouldRetry :: "ApiClientConfig \<Rightarrow> RequestOptions \<Rightarrow> bool" where
  "shouldRetry cfg opts =
     (case o_retry opts of
        Some b \<Rightarrow> b
      | None \<Rightarrow> (case enableRetry cfg of Some b \<Rightarrow> b | None \<Rightarrow> False))"

definition maxRetries :: "ApiClientConfig \<Rightarrow> RequestOptions \<Rightarrow> int" where
  "maxRetries cfg opts = numOr (o_retryCount opts) (numOr (retryCount cfg) 3)"

definition delay :: "ApiClientConfig \<Rightarrow> RequestOptions \<Rightarrow> int" where
  "delay cfg opts = numOr (o_retryDelay opts) (numOr (retryDelay cfg) 1000)"

section \<open>Token store\<close>

text \<open>
  \<^verbatim>\<open>
  public storeTokens(tokens: AuthTokens): void {
    this.storage.setItem(this.config.tokenStorageKey!, JSON.stringify(tokens))
  }
  public getTokens(): AuthTokens | null {
    const tokensString = this.storage.getItem(this.config.tokenStorageKey!)
    return tokensString ? JSON.parse(tokensString) : null
  }
  public clearTokens(): void {
    this.storage.removeItem(this.config.tokenStorageKey!)
  }
  \<close>
  \<open>getTokens\<close> throws the \<^verbatim>\<open>SyntaxError\<close> of \<^verbatim>\<open>JSON.parse\<close> on a text that is
  not JSON; an empty text is falsy and reads as \<^verbatim>\<open>null\<close>. The storage backends the
  constructor installs (\<^verbatim>\<open>window.localStorage\<close>, \<^verbatim>\<open>window.sessionStorage\<close>, the
  in-memory object) do not throw from \<^verbatim>\<open>removeItem\<close>, and \<^verbatim>\<open>setItem\<close> is taken to
  succeed.
\<close>

definition storeTokens :: "AuthTokens \<Rightarrow> 'n world \<Rightarrow> 'n world" where
  "storeTokens t w = w\<lparr>tokens := Some (Serialized t)\<rparr>"

definition getTokens :: "'n world \<Rightarrow> error + AuthTokens option" where
  "getTokens w =
     (case tokens w of
        None \<Rightarrow> Inr None
      | Some (Serialized t) \<Rightarrow> Inr (Some t)
      | Some (Unparsable text) \<Rightarrow> if text = [] then Inr None else Inl (SyntaxError text))"

definition clearTokens :: "'n world \<Rightarrow> 'n world" where
  "clearTokens w = w\<lparr>tokens := None\<rparr>"

text \<open>\<^verbatim>\<open>tokens?.access\<close> and \<^verbatim>\<open>tokens?.refresh\<close> when truthy (a non-empty string).\<close>

definition accessOf :: "AuthTokens option \<Rightarrow> string option" where
  "accessOf ts =
     (case ts of
        None \<Rightarrow> None
      | Some t \<Rightarrow> (case access t of None \<Rightarrow> None | Some a \<Rightarrow> if a = [] then None else Some a))"

definition refreshOf :: "AuthTokens option \<Rightarrow> string option" where
  "refreshOf ts =
     (case ts of
        None \<Rightarrow> None
      | Some t \<Rightarrow> (case refresh t of None \<Rightarrow> None | Some r \<Rightarrow> if r = [] then None else Some r))"

text \<open>
  The payload that \<^verbatim>\<open>jwtDecode\<close> (package jwt-decode) returns; \<^verbatim>\<open>exp\<close> is in
  seconds since the epoch and may be missing. The decoder itself is a parameter of
  \<open>isAccessTokenValid\<close>: \<open>None\<close> is a token for which decoding, or reading
  \<^verbatim>\<open>decoded.exp\<close>, throws. The read of the tokens is outside the \<^verbatim>\<open>try\<close>, so
  its exception is the function's.
  \<^verbatim>\<open>
  public isAccessTokenValid(): boolean {
    const tokens = this.getTokens()
    if (!tokens?.access) return false
    try {
      const decoded: any = jwtDecode(tokens.access)
      const currentTime = Date.now() / 1000
      return decoded.exp >= currentTime
    } catch (e) {
      return false
    }
  }
  \<close>
\<close>

record JwtPayload =
  jwt_exp :: "rat option"

definition isAccessTokenValid ::
    "(string \<Rightarrow> JwtPayload option) \<Rightarrow> 'n world \<Rightarrow> error + bool" where
  "isAccessTokenValid jwtDecode w =
     (case getTokens w of
        Inl thrown \<Rightarrow> Inl thrown
      | Inr ts \<Rightarrow>
          (case accessOf ts of
             None \<Rightarrow> Inr False
           | Some a \<Rightarrow>
               (case jwtDecode a of
                  None \<Rightarrow> Inr False
                | Some decoded \<Rightarrow>
                    (let currentTime = rat_of_int (now w) / 1000
                     in case jwt_exp decoded of
                          None \<Rightarrow> Inr False
                        | Some e \<Rightarrow> Inr (e \<ge> currentTime)))))"

section \<open>Network\<close>

text \<open>
  The remote side is a parameter. \<open>dispatch\<close> answers a request sent through the
  axios instance: after some milliseconds, with the \<^verbatim>\<open>data\<close> of a 2xx response or
  with the error axios rejects with. \<open>refresh_answer\<close> answers the bare
  \<^verbatim>\<open>axios.post(url, { refresh })\<close>; the body of its 2xx response is \<open>NullBody\<close>
  when \<^verbatim>\<open>response.data\<close> is \<^verbatim>\<open>null\<close> or \<^verbatim>\<open>undefined\<close>, and otherwise
  \<open>Body a\<close> with \<open>a\<close> its \<^verbatim>\<open>access\<close> property, if it has one.
\<close>

datatype refresh_body = NullBody | Body "string option"

record 'n network =
  dispatch :: "wire \<Rightarrow> 'n \<Rightarrow> (nat \<times> (error + jsonval)) \<times> 'n"
  refresh_answer :: "string \<Rightarrow> string \<Rightarrow> 'n \<Rightarrow> (nat \<times> (error + refresh_body)) \<times> 'n"

section \<open>Refresh coordinator\<close>

text \<open>
  \<^verbatim>\<open>
  public async refreshToken(): Promise<boolean> {
    const tokens = this.getTokens()
    if (!tokens?.refresh) return false
    try {
      const response = await axios.post(
        `${this.config.baseURL}${this.config.authEndpoints!.refresh}`,
        { refresh: tokens.refresh }
      )
      this.storeTokens({ ...tokens, access: response.data.access })
      return true
    } catch (error) {
      this.clearTokens()
      return false
    }
  }
  \<close>
  The function runs in two segments, split at its \<^verbatim>\<open>await\<close>. \<open>refresh_start\<close> runs
  up to the point where the post has been issued and either has the result already or
  waits for the reply, holding the tokens it read, the URL and the refresh token it
  posted; \<open>refresh_finish\<close> runs when the reply arrives. A missing
  \<^verbatim>\<open>authEndpoints\<close> makes the URL expression throw inside the \<^verbatim>\<open>try\<close>. The
  read of the tokens on the first line is outside the \<^verbatim>\<open>try\<close>: when it throws, the
  call rejects with that exception (\<open>Threw\<close>).
\<close>

datatype refresh_task =
    Done bool
  | Threw error
  | Awaiting AuthTokens string string

definition refresh_start :: "ApiClientConfig \<Rightarrow> 'n world \<Rightarrow> refresh_task \<times> 'n world" where
  "refresh_start cfg w =
     (case getTokens w of
        Inl thrown \<Rightarrow> (Threw thrown, w)
      | Inr None \<Rightarrow> (Done False, w)
      | Inr (Some t) \<Rightarrow>
          (case refreshOf (Some t) of
             None \<Rightarrow> (Done False, w)
           | Some r \<Rightarrow>
               (case authEndpoints cfg of
                  None \<Rightarrow> (Done False, clearTokens w)
                | Some eps \<Rightarrow>
                    (Awaiting t (baseURL cfg @ ep_refresh eps) r,
                     w\<lparr>refresh_posts := refresh_posts w @ [r]\<rparr>))))"

definition refresh_finish ::
    "AuthTokens \<Rightarrow> error + refresh_body \<Rightarrow> 'n world \<Rightarrow> bool \<times> 'n world" where
  "refresh_finish t reply w =
     (case reply of
        Inl err \<Rightarrow> (False, clearTokens w)
      | Inr NullBody \<Rightarrow> (False, clearTokens w)
      | Inr (Body a) \<Rightarrow> (True, storeTokens (t\<lparr>access := a\<rparr>) w))"

definition refreshToken :: "'n network \<Rightarrow> ApiClientConfig \<Rightarrow> ('n, bool) async" where
  "refreshToken net cfg w =
     (case refresh_start cfg w of
        (Done b, w1) \<Rightarrow> (Inr b, w1)
      | (Threw thrown, w1) \<Rightarrow> (Inl thrown, w1)
      | (Awaiting t url r, w1) \<Rightarrow>
          (case refresh_answer net url r (remote w1) of
             ((ms, reply), n') \<Rightarrow>
               (case refresh_finish t reply (w1\<lparr>now := now w1 + int ms, remote := n'\<rparr>) of
                  (b, w2) \<Rightarrow> (Inr b, w2))))"

text \<open>
  The refresh post rejects (network error, non-2xx status), or building the request or
  handling the response throws.
\<close>

definition refreshFails :: "'n network \<Rightarrow> ApiClientConfig \<Rightarrow> string \<Rightarrow> 'n world \<Rightarrow> bool" where
  "refreshFails net cfg r w =
     (case authEndpoints cfg of
        None \<Rightarrow> True
      | Some eps \<Rightarrow>
          (case snd (fst (refresh_answer net (baseURL cfg @ ep_refresh eps) r (remote w))) of
             Inl err \<Rightarrow> True
           | Inr NullBody \<Rightarrow> True
           | Inr (Body a) \<Rightarrow> False))"

section \<open>Request pipeline\<close>

text \<open>
  The part of an \<^verbatim>\<open>AxiosRequestConfig\<close> the pipeline reads or writes;
  \<open>rq_retry\<close> is the \<^verbatim>\<open>_retry\<close> mark the response interceptor puts on it.
\<close>

record RequestConfig =
  rq_method :: string
  rq_url :: string
  rq_params :: "jsonval option"
  rq_data :: "jsonval option"
  rq_auth :: "string option"
  rq_retry :: bool

text \<open>
  The request interceptor:
  \<^verbatim>\<open>
  const tokens = this.getTokens()
  if (tokens?.access) { config.headers.Authorization = `Bearer ${tokens.access}` }
  return config
  \<close>
  When the read of the tokens throws, the interceptor throws.
\<close>

definition requestInterceptor :: "'n world \<Rightarrow> RequestConfig \<Rightarrow> error + RequestConfig" where
  "requestInterceptor w config =
     (case getTokens w of
        Inl thrown \<Rightarrow> Inl thrown
      | Inr ts \<Rightarrow>
          (case accessOf ts of
             None \<Rightarrow> Inr config
           | Some a \<Rightarrow> Inr (config\<lparr>rq_auth := Some (''Bearer '' @ a)\<rparr>)))"

text \<open>The template literal \<^verbatim>\<open>`Bearer ${tokens?.access}`\<close> of the response interceptor.\<close>

definition bearer :: "AuthTokens option \<Rightarrow> string" where
  "bearer ts =
     ''Bearer '' @
       (case ts of
          None \<Rightarrow> ''undefined''
        | Some t \<Rightarrow> (case access t of None \<Rightarrow> ''undefined'' | Some a \<Rightarrow> a))"

definition toWire :: "RequestConfig \<Rightarrow> wire" where
  "toWire config =
     \<lparr>w_method = rq_method config, w_url = rq_url config, w_params = rq_params config,
      w_body = rq_data config, w_auth = rq_auth config\<rparr>"

definition transport ::
    "'n network \<Rightarrow> RequestConfig \<Rightarrow> 'n world \<Rightarrow> (error + jsonval) \<times> 'n world" where
  "transport net config w =
     (case dispatch net (toWire config) (remote w) of
        ((ms, reply), n') \<Rightarrow>
          (reply, w\<lparr>sent := sent w @ [toWire config], now := now w + int ms, remote := n'\<rparr>))"

definition fireAuthError :: "ApiClientConfig \<Rightarrow> 'n world \<Rightarrow> 'n world" where
  "fireAuthError cfg w = (if onAuthError cfg then w\<lparr>auth_errors := Suc (auth_errors w)\<rparr> else w)"

text \<open>
  A call of the axios instance, \<^verbatim>\<open>this.instance(config)\<close> (\<open>instance\<close> is a keyword
  of the prover, hence the name \<open>axiosInstance\<close>): request interceptor,
  transport, response interceptor.
  \<^verbatim>\<open>
  response => response,
  async error => {
    const originalRequest = error.config
    if (error.response?.status === 401 && !originalRequest._retry) {
      originalRequest._retry = true
      try {
        const refreshed = await this.refreshToken()
        if (refreshed) {
          const tokens = this.getTokens()
          originalRequest.headers.Authorization = `Bearer ${tokens?.access}`
          return this.instance(originalRequest)
        }
      } catch (refreshError) {
        this.clearTokens()
        if (this.config.onAuthError) this.config.onAuthError()
      }
    }
    return Promise.reject(error)
  }
  \<close>
  The replay is returned without \<^verbatim>\<open>await\<close>, so its rejection is not caught by the
  \<^verbatim>\<open>catch\<close>: it is the result. An exception of the request interceptor skips the
  transport and reaches the error handler without a \<^verbatim>\<open>response\<close>, so the handler
  rejects with it. Inside the \<^verbatim>\<open>try\<close>, a rejection of \<^verbatim>\<open>refreshToken\<close> and an
  exception of \<^verbatim>\<open>getTokens\<close> are caught.
\<close>

function axiosInstance :: "'n network \<Rightarrow> ApiClientConfig \<Rightarrow> RequestConfig \<Rightarrow> ('n, jsonval) async" where
  "axiosInstance net cfg config w =
     (case requestInterceptor w config of
        Inl thrown \<Rightarrow> (Inl thrown, w)
      | Inr sentConfig \<Rightarrow>
          (case transport net sentConfig w of
             (Inr response, w1) \<Rightarrow> (Inr response, w1)
           | (Inl err, w1) \<Rightarrow>
               if status err = Some 401 \<and> \<not> rq_retry sentConfig then
                 (let originalRequest = sentConfig\<lparr>rq_retry := True\<rparr> in
                  case refreshToken net cfg w1 of
                    (Inr refreshed, w2) \<Rightarrow>
                      if refreshed then
                        (case getTokens w2 of
                           Inr ts \<Rightarrow>
                             axiosInstance net cfg (originalRequest\<lparr>rq_auth := Some (bearer ts)\<rparr>) w2
                         | Inl refreshError \<Rightarrow> (Inl err, fireAuthError cfg (clearTokens w2)))
                      else (Inl err, w2)
                  | (Inl refreshError, w2) \<Rightarrow> (Inl err, fireAuthError cfg (clearTokens w2)))
               else (Inl err, w1)))"
  by pat_completeness auto
termination
  by (relation "measure (\<lambda>(net, cfg, config, w). if rq_retry config then 0 else 1)")
    (auto simp: requestInterceptor_def split: option.splits sum.splits)

declare axiosInstance.simps [simp del]

text \<open>
  \<^verbatim>\<open>
  public async request<T>(config: AxiosRequestConfig): Promise<T> {
    try {
      const response = await this.instance(config)
      return response.data
    } catch (error) {
      throw error
    }
  }
  \<close>
\<close>

definition request :: "'n network \<Rightarrow> ApiClientConfig \<Rightarrow> RequestConfig \<Rightarrow> ('n, jsonval) async" where
  "request net cfg config w =
     (case axiosInstance net cfg config w of
        (Inr response, w') \<Rightarrow> (Inr response, w')
      | (Inl err, w') \<Rightarrow> (Inl err, w'))"

section \<open>Cache key\<close>

text \<open>
  \<^verbatim>\<open>JSON.stringify\<close> on the values modelled: no white space, the properties of an
  object in enumeration order, strings quoted with the escapes of ECMAScript's
  QuoteJSONString. A \<open>char\<close> is one code unit below 256.
\<close>

definition digitChar :: "nat \<Rightarrow> char" where
  "digitChar n = ''0123456789abcdef'' ! (n mod 16)"

fun showNat :: "nat \<Rightarrow> string" where
  "showNat n = (if n < 10 then [digitChar n] else showNat (n div 10) @ [digitChar (n mod 10)])"

declare showNat.simps [simp del]

definition showInt :: "int \<Rightarrow> string" where
  "showInt i = (if i < 0 then CHR ''-'' # showNat (nat (- i)) else showNat (nat i))"

definition quoteChar :: "char \<Rightarrow> string" where
  "quoteChar c =
     (if c = CHR 0x22 then [CHR 0x5C, CHR 0x22]
      else if c = CHR 0x5C then [CHR 0x5C, CHR 0x5C]
      else if c = CHR 0x08 then [CHR 0x5C, CHR ''b'']
      else if c = CHR 0x09 then [CHR 0x5C, CHR ''t'']
      else if c = CHR 0x0A then [CHR 0x5C, CHR ''n'']
      else if c = CHR 0x0C then [CHR 0x5C, CHR ''f'']
      else if c = CHR 0x0D then [CHR 0x5C, CHR ''r'']
      else if (of_char c :: nat) < 32 then
        [CHR 0x5C, CHR ''u'', CHR ''0'', CHR ''0'',
         digitChar (of_char c div 16), digitChar (of_char c mod 16)]
      else [c])"

definition quoteJSONString :: "string \<Rightarrow> string" where
  "quoteJSONString s = CHR 0x22 # concat (map quoteChar s) @ [CHR 0x22]"

fun commaSep :: "string list \<Rightarrow> string" where
  "commaSep [] = []"
| "commaSep [x] = x"
| "commaSep (x # y # ys) = x @ CHR '','' # commaSep (y # ys)"

fun JSON_stringify :: "jsonval \<Rightarrow> string" where
  "JSON_stringify JNull = ''null''"
| "JSON_stringify (JBool b) = (if b then ''true'' else ''false'')"
| "JSON_stringify (JNum n) = showInt n"
| "JSON_stringify (JStr s) = quoteJSONString s"
| "JSON_stringify (JArr xs) = ''['' @ commaSep (map JSON_stringify xs) @ '']''"
| "JSON_stringify (JObj kvs) =
     ''{'' @ commaSep (map (\<lambda>kv. quoteJSONString (fst kv) @ '':'' @ JSON_stringify (snd kv)) kvs)
       @ ''}''"

text \<open>
  \<^verbatim>\<open>const cacheKey = `${url}${JSON.stringify(axiosConfig.params || {})}`\<close>
\<close>

definition paramsOrEmpty :: "jsonval option \<Rightarrow> jsonval" where
  "paramsOrEmpty params =
     (case params of None \<Rightarrow> JObj [] | Some p \<Rightarrow> if truthy p then p else JObj [])"

definition cacheKey :: "string \<Rightarrow> jsonval option \<Rightarrow> string" where
  "cacheKey url params = url @ JSON_stringify (paramsOrEmpty params)"


definition endsValue :: "string \<Rightarrow> bool" where
  "endsValue r \<longleftrightarrow> r = [] \<or> hd r \<in> {CHR '','', CHR '']'', CHR ''}''}"

section \<open>GET with caching and retries\<close>

text \<open>
  \<^verbatim>\<open>
  if (useCache && this.cache[cacheKey] && this.cache[cacheKey].expiry > Date.now()) {
    return this.cache[cacheKey].data
  }
  const requestFn = () => this.request<T>({ ...axiosConfig, method: 'get', url })
  const result = shouldRetry
    ? await this.withRetry(requestFn, maxRetries, delay)
    : await requestFn()
  if (useCache) {
    this.cache[cacheKey] = { data: result, expiry: Date.now() + cacheTime }
  }
  return result
  \<close>
\<close>

definition cacheHit :: "ApiClientConfig \<Rightarrow> RequestOptions \<Rightarrow> string \<Rightarrow> 'n world \<Rightarrow> jsonval option" where
  "cacheHit cfg opts key w =
     (if useCache cfg opts then
        (case cache w key of
           None \<Rightarrow> None
         | Some entry \<Rightarrow> if expiry entry > now w then Some (data entry) else None)
      else None)"

definition getConfig :: "string \<Rightarrow> RequestOptions \<Rightarrow> RequestConfig" where
  "getConfig url opts =
     \<lparr>rq_method = ''get'', rq_url = url, rq_params = o_params opts, rq_data = None,
      rq_auth = None, rq_retry = False\<rparr>"

definition get :: "'n network \<Rightarrow> ApiClientConfig \<Rightarrow> string \<Rightarrow> RequestOptions \<Rightarrow> ('n, jsonval) async" where
  "get net cfg url opts w =
     (let key = cacheKey url (o_params opts) in
      case cacheHit cfg opts key w of
        Some cached \<Rightarrow> (Inr cached, w)
      | None \<Rightarrow>
          (let requestFn = request net cfg (getConfig url opts) in
           case (if shouldRetry cfg opts
                 then withRetry requestFn (maxRetries cfg opts) (delay cfg opts) w
                 else requestFn w) of
             (Inl err, w') \<Rightarrow> (Inl err, w')
           | (Inr result, w') \<Rightarrow>
               (Inr result,
                if useCache cfg opts
                then w'\<lparr>cache := (cache w')(key \<mapsto>
                        \<lparr>data = result, expiry = now w' + cacheTime cfg opts\<rparr>)\<rparr>
                else w')))"

text \<open>
  The dispatch of \<^verbatim>\<open>get\<close> on a cache miss:
  \<^verbatim>\<open>shouldRetry ? await this.withRetry(requestFn, maxRetries, delay) : await requestFn()\<close>
\<close>

definition fetch :: "'n network \<Rightarrow> ApiClientConfig \<Rightarrow> string \<Rightarrow> RequestOptions \<Rightarrow> ('n, jsonval) async" where
  "fetch net cfg url opts w =
     (if shouldRetry cfg opts
      then withRetry (request net cfg (getConfig url opts)) (maxRetries cfg opts) (delay cfg opts) w
      else request net cfg (getConfig url opts) w)"

section \<open>Concrete clients and networks\<close>

text \<open>A client right after construction, at clock \<open>t\<close>, facing a remote side in state \<open>n\<close>.\<close>

definition newWorld :: "int \<Rightarrow> 'n \<Rightarrow> 'n world" where
  "newWorld t n =
     \<lparr>tokens = None, cache = Map.empty, now = t, sleeps = [], sent = [],
      refresh_posts = [], auth_errors = 0, remote = n\<rparr>"

definition bareConfig :: ApiClientConfig where
  "bareConfig =
     \<lparr>baseURL = ''https://api.test'', authEndpoints = None, enableCache = None,
      cacheDuration = None, enableRetry = None, retryCount = None, retryDelay = None,
      onAuthError = True\<rparr>"

definition noOptions :: RequestOptions where
  "noOptions =
     \<lparr>o_cache = None, o_cacheDuration = None, o_retry = None, o_retryCount = None,
      o_retryDelay = None, o_params = None\<rparr>"

text \<open>A client holding a token pair, and networks that answer every call the same way.\<close>

definition storedPair :: AuthTokens where
  "storedPair = \<lparr>access = Some ''a1'', refresh = Some ''r1''\<rparr>"

definition loggedIn :: "int \<Rightarrow> 'n \<Rightarrow> 'n world" where
  "loggedIn t n = storeTokens storedPair (newWorld t n)"

definition constNet :: "error + jsonval \<Rightarrow> error + refresh_body \<Rightarrow> unit network" where
  "constNet reply refreshReply =
     \<lparr>dispatch = (\<lambda>wr n. ((0, reply), n)), refresh_answer = (\<lambda>url r n. ((0, refreshReply), n))\<rparr>"

definition always401 :: "unit network" where
  "always401 = constNet (Inl (HttpError 401 JNull)) (Inr (Body (Some ''a2'')))"

definition refreshDown :: "unit network" where
  "refreshDown = constNet (Inl (HttpError 401 JNull)) (Inl (NetworkError ''offline''))"

text \<open>
  A client whose slot holds the text \<^verbatim>\<open>undefined\<close>, as \<^verbatim>\<open>localStorage\<close> does after
  \<^verbatim>\<open>storeTokens(undefined)\<close>.
\<close>

definition garbled :: "int \<Rightarrow> 'n \<Rightarrow> 'n world" where
  "garbled t n = (newWorld t n)\<lparr>tokens := Some (Unparsable ''undefined'')\<rparr>"

text \<open>Scripts for \<open>scripted\<close>: \<open>k\<close> failures and then a value, and failures only.\<close>

definition flaky :: "nat \<Rightarrow> jsonval \<Rightarrow> nat \<Rightarrow> error + jsonval" where
  "flaky k v i = (if i < k then Inl (NetworkError ''timeout'') else Inr v)"

definition failing :: "nat \<Rightarrow> error + jsonval" where
  "failing i = Inl (HttpError (500 + i) JNull)"





text \<open>Options that set the numeric overrides to zero, and options that switch retries off.\<close>

definition zeroRetries :: RequestOptions where
  "zeroRetries = noOptions\<lparr>o_cacheDuration := Some 0, o_retryCount := Some 0, o_retryDelay := Some 0\<rparr>"

definition noRetry :: RequestOptions where
  "noRetry = noOptions\<lparr>o_retry := Some False\<rparr>"

text \<open>A decoder for two tokens, and a client holding a given access token at a given time.\<close>

definition stubDecode :: "string \<Rightarrow> JwtPayload option" where
  "stubDecode token =
     (if token = ''exp2000'' then Some \<lparr>jwt_exp = Some 2000\<rparr>
      else if token = ''noexp'' then Some \<lparr>jwt_exp = None\<rparr>
      else None)"

definition holding :: "string \<Rightarrow> int \<Rightarrow> unit world" where
  "holding a t = storeTokens \<lparr>access = Some a, refresh = Some ''r1''\<rparr> (newWorld t ())"

section \<open>Concurrent refreshes\<close>

text \<open>
  Several handlers of a 401 response call \<^verbatim>\<open>refreshToken\<close> before any refresh reply
  has arrived. The event loop runs each call up to its \<^verbatim>\<open>await\<close> in turn
  (\<open>startAll\<close>); later the replies are delivered, each to the call that waits for it
  (\<open>finishAll\<close>, which lists the booleans the calls resolve to; a call that rejected
  when it started waits for no reply and resolves to nothing). \<open>replyOk\<close> tells the
  replies that carry a body to read from.
\<close>

fun startAll :: "nat \<Rightarrow> ApiClientConfig \<Rightarrow> 'n world \<Rightarrow> refresh_task list \<times> 'n world" where
  "startAll 0 cfg w = ([], w)"
| "startAll (Suc n) cfg w =
     (case refresh_start cfg w of
        (task, w1) \<Rightarrow> (case startAll n cfg w1 of (tasks, w2) \<Rightarrow> (task # tasks, w2)))"

fun finishAll :: "(refresh_task \<times> (error + refresh_body)) list \<Rightarrow> 'n world \<Rightarrow> bool list \<times> 'n world" where
  "finishAll [] w = ([], w)"
| "finishAll ((Done b, reply) # rest) w =
     (case finishAll rest w of (bs, w') \<Rightarrow> (b # bs, w'))"
| "finishAll ((Threw thrown, reply) # rest) w = finishAll rest w"
| "finishAll ((Awaiting t url r, reply) # rest) w =
     (case refresh_finish t reply w of
        (b, w1) \<Rightarrow> (case finishAll rest w1 of (bs, w2) \<Rightarrow> (b # bs, w2)))"

definition replyOk :: "error + refresh_body \<Rightarrow> bool" where
  "replyOk reply = (case reply of Inl err \<Rightarrow> False | Inr NullBody \<Rightarrow> False | Inr (Body a) \<Rightarrow> True)"

section \<open>Properties of the retry helper\<close>

lemma backoff_Suc: "backoff d (Suc k) = d # backoff (d * 2) k"
proof -
  have "[0..<Suc k] = 0 # map Suc [0..<k]"
    by (simp add: upt_conv_Cons map_Suc_upt del: upt_Suc)
  then show ?thesis
    by (simp add: backoff_def comp_def mult.assoc del: upt_Suc)
qed

lemma withRetry_attempts:
  "\<forall>i<k. \<exists>e. fst (requestFn (attemptWorld requestFn d i w)) = Inl e \<Longrightarrow>
   withRetry requestFn (int k) d w = requestFn (attemptWorld requestFn d k w)"
proof (induction k arbitrary: w d)
  case 0
  show ?case
    by (subst withRetry.simps) (auto split: prod.splits sum.splits)
next
  case (Suc k)
  from Suc.prems have "\<exists>e. fst (requestFn (attemptWorld requestFn d 0 w)) = Inl e"
    by blast
  then obtain e w' where f: "requestFn w = (Inl e, w')"
    by (cases "requestFn w") auto
  have "\<forall>i<k. \<exists>e. fst (requestFn (attemptWorld requestFn (d * 2) i (sleep d w'))) = Inl e"
  proof (intro allI impI)
    fix i assume "i < k"
    then have "Suc i < Suc k" by simp
    with Suc.prems have "\<exists>e. fst (requestFn (attemptWorld requestFn d (Suc i) w)) = Inl e"
      by blast
    with f show "\<exists>e. fst (requestFn (attemptWorld requestFn (d * 2) i (sleep d w'))) = Inl e"
      by simp
  qed
  from Suc.IH [OF this] f show ?case
    by (subst withRetry.simps) simp
qed

lemma scripted_sel:
  "fst (scripted outcome w) = outcome (remote w)"
  "snd (scripted outcome w) = w\<lparr>remote := Suc (remote w)\<rparr>"
  by (simp_all add: scripted_def)

lemma attemptWorld_scripted:
  "attemptWorld (scripted outcome) d i w =
     w\<lparr>sleeps := sleeps w @ backoff d i,
       now := now w + sum_list (map (max 0) (backoff d i)),
       remote := remote w + i\<rparr>"
proof (induction i arbitrary: w d)
  case 0
  then show ?case by (simp add: backoff_def)
next
  case (Suc i)
  show ?case
    by (simp add: Suc.IH scripted_sel sleep_def backoff_Suc)
qed

text \<open>
  C4. Wrapped with retry count \<open>k\<close> and initial delay \<open>d\<close>: for every operation whose
  first \<open>k\<close> attempts fail, the result is the outcome of attempt \<open>k + 1\<close>, made after the
  waits \<open>d, 2d, 4d, ...\<close>, be it a success or a failure. For an operation that counts its
  invocations: \<open>k\<close> failures and then a success return the success after \<open>k\<close> retries,
  that is \<open>k + 1\<close> invocations, with the waits \<open>d, 2d, 4d, ...\<close> between them; failures
  only make \<open>k + 1\<close> invocations, with the same waits, and the last failure is the
  result, whatever the failures are.
\<close>

theorem withRetry_backoff:
  "((\<forall>i<k. \<exists>e. fst (requestFn (attemptWorld requestFn d i w)) = Inl e) \<longrightarrow>
      withRetry requestFn (int k) d w = requestFn (attemptWorld requestFn d k w)) \<and>
   ((\<forall>i<k. \<exists>e. outcome (remote v + i) = Inl e) \<and> outcome (remote v + k) = Inr x \<longrightarrow>
      fst (withRetry (scripted outcome) (int k) d v) = Inr x \<and>
      remote (snd (withRetry (scripted outcome) (int k) d v)) = remote v + (k + 1) \<and>
      sleeps (snd (withRetry (scripted outcome) (int k) d v)) = sleeps v @ backoff d k) \<and>
   ((\<forall>i\<le>k. outcome (remote v + i) = Inl (e i)) \<longrightarrow>
      fst (withRetry (scripted outcome) (int k) d v) = Inl (e k) \<and>
      remote (snd (withRetry (scripted outcome) (int k) d v)) = remote v + (k + 1) \<and>
      sleeps (snd (withRetry (scripted outcome) (int k) d v)) = sleeps v @ backoff d k)"
proof (intro conjI impI)
  assume "\<forall>i<k. \<exists>e. fst (requestFn (attemptWorld requestFn d i w)) = Inl e"
  then show "withRetry requestFn (int k) d w = requestFn (attemptWorld requestFn d k w)"
    by (rule withRetry_attempts)
next
  assume a: "(\<forall>i<k. \<exists>e. outcome (remote v + i) = Inl e) \<and> outcome (remote v + k) = Inr x"
  then have "\<forall>i<k. \<exists>e. fst (scripted outcome (attemptWorld (scripted outcome) d i v)) = Inl e"
    by (simp add: attemptWorld_scripted scripted_sel)
  from withRetry_attempts [OF this] a
  have r: "withRetry (scripted outcome) (int k) d v =
           (Inr x, (attemptWorld (scripted outcome) d k v)\<lparr>remote := Suc (remote v + k)\<rparr>)"
    by (simp add: prod_eq_iff scripted_sel attemptWorld_scripted)
  show "fst (withRetry (scripted outcome) (int k) d v) = Inr x"
    "remote (snd (withRetry (scripted outcome) (int k) d v)) = remote v + (k + 1)"
    "sleeps (snd (withRetry (scripted outcome) (int k) d v)) = sleeps v @ backoff d k"
    by (simp_all add: r attemptWorld_scripted)
next
  assume a: "\<forall>i\<le>k. outcome (remote v + i) = Inl (e i)"
  then have "\<forall>i<k. \<exists>e. fst (scripted outcome (attemptWorld (scripted outcome) d i v)) = Inl e"
    by (simp add: attemptWorld_scripted scripted_sel)
  from withRetry_attempts [OF this] a
  have r: "withRetry (scripted outcome) (int k) d v =
           (Inl (e k), (attemptWorld (scripted outcome) d k v)\<lparr>remote := Suc (remote v + k)\<rparr>)"
    by (simp add: prod_eq_iff scripted_sel attemptWorld_scripted)
  show "fst (withRetry (scripted outcome) (int k) d v) = Inl (e k)"
    "remote (snd (withRetry (scripted outcome) (int k) d v)) = remote v + (k + 1)"
    "sleeps (snd (withRetry (scripted outcome) (int k) d v)) = sleeps v @ backoff d k"
    by (simp_all add: r attemptWorld_scripted)
qed

theorem withRetry_backoff_witness:
  "fst (withRetry (scripted (flaky 2 (JNum 7))) 2 1000 (newWorld 0 0)) = Inr (JNum 7) \<and>
   remote (snd (withRetry (scripted (flaky 2 (JNum 7))) 2 1000 (newWorld 0 0))) = 3 \<and>
   sleeps (snd (withRetry (scripted (flaky 2 (JNum 7))) 2 1000 (newWorld 0 0))) = [1000, 2000] \<and>
   fst (withRetry (scripted failing) 2 1000 (newWorld 0 0)) = Inl (HttpError 502 JNull) \<and>
   remote (snd (withRetry (scripted failing) 2 1000 (newWorld 0 0))) = 3 \<and>
   sleeps (snd (withRetry (scripted failing) 2 1000 (newWorld 0 0))) = [1000, 2000] \<and>
   withRetry (scripted failing) 2 1000 (newWorld 0 0)
     = scripted failing (attemptWorld (scripted failing) 1000 2 (newWorld 0 0))"
proof -
  have h1: "(\<forall>i<Suc (Suc 0). \<exists>e. flaky 2 (JNum 7) (remote (newWorld 0 0 :: nat world) + i) = Inl e)
            \<and> flaky 2 (JNum 7) (remote (newWorld 0 0 :: nat world) + Suc (Suc 0)) = Inr (JNum 7)"
    by (simp add: flaky_def newWorld_def)
  have h2: "\<forall>i\<le>Suc (Suc 0). failing (remote (newWorld 0 0 :: nat world) + i)
              = Inl (HttpError (500 + i) JNull)"
    by (simp add: failing_def newWorld_def)
  have h3: "\<forall>i<Suc (Suc 0). \<exists>e. fst (scripted failing
              (attemptWorld (scripted failing) 1000 i (newWorld 0 0))) = Inl e"
    by (simp add: attemptWorld_scripted scripted_sel failing_def)
  have b: "backoff 1000 (Suc (Suc 0)) = [1000, 2000]"
    by (simp add: backoff_def)
  have two: "(2::nat) = Suc (Suc 0)"
    by simp
  show ?thesis
    using withRetry_backoff [of "Suc (Suc 0)" "scripted failing" 1000 "newWorld 0 0"
        "flaky 2 (JNum 7)" "newWorld 0 0" "JNum 7" "\<lambda>i. HttpError 0 JNull"]
      withRetry_backoff [of "Suc (Suc 0)" "scripted failing" 1000 "newWorld 0 0"
        failing "newWorld 0 0" "JNum 7" "\<lambda>i. HttpError (500 + i) JNull"]
      h1 h2 h3 b
    by (simp add: newWorld_def two)
qed


section \<open>Properties of the refresh coordinator\<close>

lemma getTokens_same: "tokens w' = tokens w \<Longrightarrow> getTokens w' = getTokens w"
  by (simp add: getTokens_def)

lemma getTokens_cleared [simp]: "getTokens (clearTokens w) = Inr None"
  by (simp add: getTokens_def clearTokens_def)

lemma getTokens_stored [simp]: "getTokens (storeTokens t w) = Inr (Some t)"
  by (simp add: getTokens_def storeTokens_def)

lemma refresh_start_readable:
  "getTokens w = Inr ts \<Longrightarrow>
   (\<exists>b. fst (refresh_start cfg w) = Done b) \<or> (\<exists>t url r. fst (refresh_start cfg w) = Awaiting t url r)"
  by (auto simp: refresh_start_def split: option.splits)

lemma refreshToken_resolves:
  "getTokens w = Inr ts \<Longrightarrow> \<exists>b. fst (refreshToken net cfg w) = Inr b"
  using refresh_start_readable [of w ts cfg]
  by (auto simp: refreshToken_def split: prod.splits refresh_task.splits)

lemma refreshToken_keeps:
  "sent (snd (refreshToken net cfg w)) = sent w"
  "cache (snd (refreshToken net cfg w)) = cache w"
  "auth_errors (snd (refreshToken net cfg w)) = auth_errors w"
  "sleeps (snd (refreshToken net cfg w)) = sleeps w"
  by (auto simp: refreshToken_def refresh_start_def refresh_finish_def clearTokens_def
      storeTokens_def split: prod.splits refresh_task.splits option.splits sum.splits
      refresh_body.splits)

lemma refreshToken_readable:
  "getTokens w = Inr ts \<Longrightarrow> \<exists>ts'. getTokens (snd (refreshToken net cfg w)) = Inr ts'"
  by (auto simp: refreshToken_def refresh_start_def refresh_finish_def
      getTokens_same [of "w\<lparr>refresh_posts := ps\<rparr>" w for ps]
      split: prod.splits refresh_task.splits option.splits sum.splits refresh_body.splits)

text \<open>
  C9, as the code has it. \<open>refreshToken\<close> resolves to a boolean whenever the stored
  text can be read, that is when the slot is empty or holds JSON text: with no refresh
  token stored it resolves \<open>False\<close> and leaves the world as it was (no network call,
  storage untouched), and when the refresh call or the handling of its response fails
  the stored tokens are cleared and it resolves \<open>False\<close>. When the read of the slot
  throws, \<open>refreshToken\<close> rejects with that exception and leaves the world as it was.
\<close>

theorem refreshToken_outcomes:
  "(getTokens w = Inl thrown \<longrightarrow> refreshToken net cfg w = (Inl thrown, w)) \<and>
   (getTokens w = Inr ts \<longrightarrow> (\<exists>b. fst (refreshToken net cfg w) = Inr b)) \<and>
   (getTokens w = Inr ts \<and> refreshOf ts = None \<longrightarrow> refreshToken net cfg w = (Inr False, w)) \<and>
   (getTokens w = Inr ts \<and> refreshOf ts = Some r \<and> refreshFails net cfg r w \<longrightarrow>
      fst (refreshToken net cfg w) = Inr False \<and>
      getTokens (snd (refreshToken net cfg w)) = Inr None)"
proof (intro conjI impI)
  assume "getTokens w = Inl thrown"
  then show "refreshToken net cfg w = (Inl thrown, w)"
    by (simp add: refreshToken_def refresh_start_def)
next
  assume "getTokens w = Inr ts"
  then show "\<exists>b. fst (refreshToken net cfg w) = Inr b"
    by (rule refreshToken_resolves)
next
  assume "getTokens w = Inr ts \<and> refreshOf ts = None"
  then show "refreshToken net cfg w = (Inr False, w)"
    by (auto simp: refreshToken_def refresh_start_def refreshOf_def split: option.splits)
next
  assume a: "getTokens w = Inr ts \<and> refreshOf ts = Some r \<and> refreshFails net cfg r w"
  then show "fst (refreshToken net cfg w) = Inr False"
    by (auto simp: refreshToken_def refresh_start_def refresh_finish_def refreshFails_def
        refreshOf_def
        split: option.splits prod.splits sum.splits refresh_body.splits if_splits)
  from a show "getTokens (snd (refreshToken net cfg w)) = Inr None"
    by (auto simp: refreshToken_def refresh_start_def refresh_finish_def refreshFails_def
        refreshOf_def
        split: option.splits prod.splits sum.splits refresh_body.splits if_splits)
qed

theorem refreshToken_outcomes_witness:
  "refreshToken always401 (mergeConfig bareConfig) (garbled 0 ())
     = (Inl (SyntaxError ''undefined''), garbled 0 ()) \<and>
   refreshToken refreshDown (mergeConfig bareConfig) (newWorld 0 ()) = (Inr False, newWorld 0 ()) \<and>
   fst (refreshToken refreshDown (mergeConfig bareConfig) (loggedIn 0 ())) = Inr False \<and>
   getTokens (snd (refreshToken refreshDown (mergeConfig bareConfig) (loggedIn 0 ()))) = Inr None"
proof -
  have h0: "getTokens (garbled 0 ()) = Inl (SyntaxError ''undefined'')"
    by (simp add: getTokens_def garbled_def newWorld_def)
  have h1: "getTokens (newWorld 0 ()) = Inr None \<and> refreshOf None = None"
    by (simp add: refreshOf_def getTokens_def newWorld_def)
  have h2: "getTokens (loggedIn 0 ()) = Inr (Some storedPair) \<and>
            refreshOf (Some storedPair) = Some ''r1'' \<and>
            refreshFails refreshDown (mergeConfig bareConfig) ''r1'' (loggedIn 0 ())"
    by (simp add: refreshOf_def loggedIn_def storedPair_def
        refreshFails_def mergeConfig_def bareConfig_def orDefault_def refreshDown_def constNet_def)
  show ?thesis
    using refreshToken_outcomes [of "garbled 0 ()" "SyntaxError ''undefined''" always401
        "mergeConfig bareConfig" None "''r1''"]
      refreshToken_outcomes [of "newWorld 0 ()" "SyntaxError ''undefined''" refreshDown
        "mergeConfig bareConfig" None "''r1''"]
      refreshToken_outcomes [of "loggedIn 0 ()" "SyntaxError ''undefined''" refreshDown
        "mergeConfig bareConfig" "Some storedPair" "''r1''"]
      h0 h1 h2
    by simp
qed

text \<open>
  C9, as stated, fails: with the text \<^verbatim>\<open>undefined\<close> in the slot, \<open>refreshToken\<close>
  rejects with the \<^verbatim>\<open>SyntaxError\<close> of \<^verbatim>\<open>JSON.parse\<close>, whatever the network answers.
\<close>

theorem refreshToken_rejects_unparsable:
  "fst (refreshToken always401 (mergeConfig bareConfig) (garbled 0 ()))
     = Inl (SyntaxError ''undefined'') \<and>
   fst (refreshToken refreshDown (mergeConfig bareConfig) (garbled 0 ()))
     = Inl (SyntaxError ''undefined'')"
  by code_simp

section \<open>Properties of the pipeline\<close>

lemma transport_effects:
  "transport net config w = (r, w1) \<Longrightarrow>
     sent w1 = sent w @ [toWire config] \<and> cache w1 = cache w \<and> auth_errors w1 = auth_errors w
       \<and> sleeps w1 = sleeps w \<and> tokens w1 = tokens w \<and> refresh_posts w1 = refresh_posts w"
  by (auto simp: transport_def split: prod.splits)

lemma requestInterceptor_Inr:
  "requestInterceptor w config = Inr sc \<Longrightarrow>
   (\<exists>ts. getTokens w = Inr ts) \<and> rq_retry sc = rq_retry config"
  by (auto simp: requestInterceptor_def split: sum.splits option.splits)

lemma requestInterceptor_Inl:
  "requestInterceptor w config = Inl thrown \<Longrightarrow> getTokens w = Inl thrown"
  by (auto simp: requestInterceptor_def split: sum.splits option.splits)

lemma axiosInstance_keeps:
  "cache (snd (axiosInstance net cfg config w)) = cache w \<and>
   auth_errors (snd (axiosInstance net cfg config w)) = auth_errors w \<and>
   sleeps (snd (axiosInstance net cfg config w)) = sleeps w \<and>
   length (sent w) \<le> length (sent (snd (axiosInstance net cfg config w))) \<and>
   ((\<exists>ts. getTokens w = Inr ts) \<longrightarrow>
      length (sent w) < length (sent (snd (axiosInstance net cfg config w))))"
proof (induction net cfg config w rule: axiosInstance.induct)
  case (1 net cfg config w)
  show ?case
  proof (cases "requestInterceptor w config")
    case (Inl thrown)
    have "axiosInstance net cfg config w = (Inl thrown, w)"
      using Inl by (subst axiosInstance.simps) simp
    with requestInterceptor_Inl [OF Inl] show ?thesis
      by simp
  next
    case sc: (Inr sc)
    from requestInterceptor_Inr [OF sc] obtain ts where ts: "getTokens w = Inr ts"
      by blast
    obtain r w1 where t: "transport net sc w = (r, w1)"
      by (cases "transport net sc w")
    note te = transport_effects [OF t]
    have g1: "getTokens w1 = Inr ts"
      using te ts getTokens_same [of w1 w] by simp
    show ?thesis
    proof (cases r)
      case (Inr response)
      with sc t have "axiosInstance net cfg config w = (Inr response, w1)"
        by (subst axiosInstance.simps) simp
      with te show ?thesis
        by simp
    next
      case (Inl err)
      show ?thesis
      proof (cases "status err = Some 401 \<and> \<not> rq_retry sc")
        case False
        with sc t Inl have "axiosInstance net cfg config w = (Inl err, w1)"
          by (subst axiosInstance.simps) auto
        with te show ?thesis
          by simp
      next
        case True
        obtain b w2 where rt: "refreshToken net cfg w1 = (Inr b, w2)"
          using refreshToken_resolves [OF g1, of net cfg] by (cases "refreshToken net cfg w1") auto
        have k2: "sent w2 = sent w1" "cache w2 = cache w1" "auth_errors w2 = auth_errors w1"
          "sleeps w2 = sleeps w1"
          using refreshToken_keeps [of net cfg w1] rt by simp_all
        obtain ts2 where g2: "getTokens w2 = Inr ts2"
          using refreshToken_readable [OF g1, of net cfg] rt by auto
        show ?thesis
        proof (cases b)
          case False
          with sc t Inl True rt have "axiosInstance net cfg config w = (Inl err, w2)"
            by (subst axiosInstance.simps) (simp add: Let_def)
          with te k2 show ?thesis
            by simp
        next
          case b: True
          let ?rq = "sc\<lparr>rq_retry := True, rq_auth := Some (bearer ts2)\<rparr>"
          have ih: "cache (snd (axiosInstance net cfg ?rq w2)) = cache w2 \<and>
                    auth_errors (snd (axiosInstance net cfg ?rq w2)) = auth_errors w2 \<and>
                    sleeps (snd (axiosInstance net cfg ?rq w2)) = sleeps w2 \<and>
                    length (sent w2) \<le> length (sent (snd (axiosInstance net cfg ?rq w2)))"
            using "1.IH" [OF sc t [symmetric] Inl True refl rt [symmetric] refl b g2] by simp
          have unf: "axiosInstance net cfg config w = axiosInstance net cfg ?rq w2"
            using sc t Inl True rt b g2 by (subst axiosInstance.simps) (simp add: Let_def)
          show ?thesis
            unfolding unf using ih te k2 by simp
        qed
      qed
    qed
  qed
qed

lemma request_keeps:
  "cache (snd (request net cfg config w)) = cache w"
  "auth_errors (snd (request net cfg config w)) = auth_errors w"
  "length (sent w) \<le> length (sent (snd (request net cfg config w)))"
  "getTokens w = Inr ts \<Longrightarrow> length (sent w) < length (sent (snd (request net cfg config w)))"
  using axiosInstance_keeps [of net cfg config w]
  by (auto simp: request_def split: prod.splits sum.splits)

lemma withRetry_preserves:
  assumes "\<And>w. obs (snd (f w)) = obs w" and "\<And>d w. obs (sleep d w) = obs w"
  shows "obs (snd (withRetry f k d w)) = obs w"
  using assms
proof (induction f k d w rule: withRetry.induct)
  case (1 f k d w)
  obtain r w' where fw: "f w = (r, w')"
    by (cases "f w")
  have c: "obs w' = obs w"
    using "1.prems"(1) [of w] fw by simp
  show ?case
  proof (cases r)
    case (Inr v)
    with fw c show ?thesis
      by (subst withRetry.simps) simp
  next
    case (Inl err)
    show ?thesis
    proof (cases "k \<le> 0")
      case True
      with fw c Inl show ?thesis
        by (subst withRetry.simps) simp
    next
      case False
      have "obs (snd (withRetry f (k - 1) (d * 2) (sleep d w'))) = obs (sleep d w')"
        using "1.IH" [OF fw [symmetric] Inl False "1.prems"] by simp
      with fw c Inl False "1.prems"(2) show ?thesis
        by (subst withRetry.simps) simp
    qed
  qed
qed

lemma withRetry_sent:
  assumes "\<And>w. length (sent w) \<le> length (sent (snd (f w)))"
  shows "length (sent (snd (f w))) \<le> length (sent (snd (withRetry f k d w)))"
  using assms
proof (induction f k d w rule: withRetry.induct)
  case (1 f k d w)
  obtain r w' where fw: "f w = (r, w')"
    by (cases "f w")
  show ?case
  proof (cases r)
    case (Inr v)
    with fw show ?thesis
      by (subst withRetry.simps) simp
  next
    case (Inl err)
    show ?thesis
    proof (cases "k \<le> 0")
      case True
      with fw Inl show ?thesis
        by (subst withRetry.simps) simp
    next
      case False
      let ?w = "sleep d w'"
      have "length (sent (snd (f ?w))) \<le> length (sent (snd (withRetry f (k - 1) (d * 2) ?w)))"
        using "1.IH" [OF fw [symmetric] Inl False "1.prems"] .
      moreover have "length (sent w') \<le> length (sent (snd (f ?w)))"
        using "1.prems" [of ?w] by (simp add: sleep_def)
      ultimately show ?thesis
        using fw Inl False by (subst withRetry.simps) simp
    qed
  qed
qed

lemma fetch_keeps:
  "cache (snd (fetch net cfg url opts w)) = cache w"
  "getTokens w = Inr ts \<Longrightarrow> length (sent w) < length (sent (snd (fetch net cfg url opts w)))"
proof -
  show "cache (snd (fetch net cfg url opts w)) = cache w"
    by (simp add: fetch_def withRetry_preserves [where obs = cache] request_keeps sleep_def)
  assume r: "getTokens w = Inr ts"
  let ?f = "request net cfg (getConfig url opts)"
  have "length (sent w) < length (sent (snd (?f w)))"
    using r by (rule request_keeps(4))
  moreover have "length (sent (snd (?f w)))
      \<le> length (sent (snd (withRetry ?f (maxRetries cfg opts) (delay cfg opts) w)))"
    by (rule withRetry_sent) (rule request_keeps(3))
  ultimately show "length (sent w) < length (sent (snd (fetch net cfg url opts w)))"
    by (simp add: fetch_def)
qed



lemma get_miss:
  "cacheHit cfg opts (cacheKey url (o_params opts)) w = None \<Longrightarrow>
   get net cfg url opts w =
     (case fetch net cfg url opts w of
        (Inl err, w') \<Rightarrow> (Inl err, w')
      | (Inr result, w') \<Rightarrow>
          (Inr result,
           if useCache cfg opts
           then w'\<lparr>cache := (cache w')(cacheKey url (o_params opts) \<mapsto>
                   \<lparr>data = result, expiry = now w' + cacheTime cfg opts\<rparr>)\<rparr>
           else w'))"
  by (simp add: get_def fetch_def Let_def)

lemma get_hit:
  "cacheHit cfg opts (cacheKey url (o_params opts)) w = Some cached \<Longrightarrow>
   get net cfg url opts w = (Inr cached, w)"
  by (simp add: get_def Let_def)

text \<open>
  C10. When a GET misses the cache and its dispatch fails, retries included, the GET
  fails with the failure of the dispatch and the cache is as it was before the call;
  and whenever a GET changes the cache, its dispatch has succeeded and the change is the
  entry, under the call's key, of the payload the dispatch returned.
\<close>

theorem get_failure_leaves_cache:
  "(cacheHit cfg opts (cacheKey url (o_params opts)) w = None \<and>
    fst (fetch net cfg url opts w) = Inl err \<longrightarrow>
      get net cfg url opts w = fetch net cfg url opts w \<and>
      fst (get net cfg url opts w) = Inl err \<and>
      cache (snd (get net cfg url opts w)) = cache w) \<and>
   (cache (snd (get net cfg url opts w)) \<noteq> cache w \<longrightarrow>
      cacheHit cfg opts (cacheKey url (o_params opts)) w = None \<and>
      (\<exists>v. fst (fetch net cfg url opts w) = Inr v \<and> fst (get net cfg url opts w) = Inr v \<and>
           cache (snd (get net cfg url opts w)) =
             (cache w)(cacheKey url (o_params opts) \<mapsto>
                \<lparr>data = v, expiry = now (snd (fetch net cfg url opts w)) + cacheTime cfg opts\<rparr>)))"
proof (cases "cacheHit cfg opts (cacheKey url (o_params opts)) w")
  case None
  obtain r w' where fw: "fetch net cfg url opts w = (r, w')"
    by (cases "fetch net cfg url opts w")
  have "cache w' = cache w"
    using fetch_keeps(1) [of net cfg url opts w] fw by simp
  with fw None show ?thesis
    by (cases r) (simp_all add: get_miss)
next
  case (Some cached)
  then show ?thesis
    by (simp add: get_hit)
qed

theorem get_failure_leaves_cache_witness:
  "fst (fetch refreshDown (mergeConfig bareConfig) ''/items/'' noOptions (loggedIn 0 ()))
     = Inl (HttpError 401 JNull) \<and>
   fst (get refreshDown (mergeConfig bareConfig) ''/items/'' noOptions (loggedIn 0 ()))
     = Inl (HttpError 401 JNull) \<and>
   cache (snd (get refreshDown (mergeConfig bareConfig) ''/items/'' noOptions (loggedIn 0 ())))
     = Map.empty"
proof -
  have f: "fst (fetch refreshDown (mergeConfig bareConfig) ''/items/'' noOptions (loggedIn 0 ()))
     = Inl (HttpError 401 JNull)"
    by code_simp
  have m: "cacheHit (mergeConfig bareConfig) noOptions (cacheKey ''/items/'' (o_params noOptions))
             (loggedIn 0 ()) = None"
    by (simp add: cacheHit_def loggedIn_def newWorld_def storeTokens_def)
  have c0: "cache (loggedIn 0 ()) = Map.empty"
    by (simp add: loggedIn_def newWorld_def storeTokens_def)
  have g: "fst (get refreshDown (mergeConfig bareConfig) ''/items/'' noOptions (loggedIn 0 ()))
             = Inl (HttpError 401 JNull) \<and>
           cache (snd (get refreshDown (mergeConfig bareConfig) ''/items/'' noOptions (loggedIn 0 ())))
             = cache (loggedIn 0 ())"
    using get_failure_leaves_cache [of "mergeConfig bareConfig" noOptions "''/items/''"
        "loggedIn 0 ()" refreshDown "HttpError 401 JNull"] f m
    by blast
  then have "cache (snd (get refreshDown (mergeConfig bareConfig) ''/items/'' noOptions (loggedIn 0 ())))
             = Map.empty"
    by (simp only: c0)
  with f g show ?thesis
    by blast
qed




section \<open>Properties of the token store\<close>

text \<open>
  C7. \<open>isAccessTokenValid\<close> returns true exactly when a non-empty access token is
  stored, it decodes, and its expiry claim is at least the current time in seconds; for
  a stored token that does not decode it returns false and does not throw, for an
  expiry in the past it returns false and for one in the future true.
\<close>

theorem isAccessTokenValid_iff:
  "(isAccessTokenValid jwtDecode w = Inr True \<longleftrightarrow>
      (\<exists>ts a p e. getTokens w = Inr ts \<and> accessOf ts = Some a \<and> jwtDecode a = Some p \<and>
                  jwt_exp p = Some e \<and> rat_of_int (now w) / 1000 \<le> e)) \<and>
   (getTokens w = Inr ts \<and> accessOf ts = Some a \<and> jwtDecode a = None \<longrightarrow>
      isAccessTokenValid jwtDecode w = Inr False) \<and>
   (getTokens w = Inr ts \<and> accessOf ts = Some a \<and> jwtDecode a = Some p \<and> jwt_exp p = Some e \<and>
      e < rat_of_int (now w) / 1000 \<longrightarrow> isAccessTokenValid jwtDecode w = Inr False) \<and>
   (getTokens w = Inr ts \<and> accessOf ts = Some a \<and> jwtDecode a = Some p \<and> jwt_exp p = Some e \<and>
      rat_of_int (now w) / 1000 < e \<longrightarrow> isAccessTokenValid jwtDecode w = Inr True)"
  by (auto simp: isAccessTokenValid_def Let_def split: option.splits sum.splits)

theorem isAccessTokenValid_iff_witness:
  "isAccessTokenValid stubDecode (holding ''garbage'' 1000000) = Inr False \<and>
   isAccessTokenValid stubDecode (holding ''noexp'' 0) \<noteq> Inr True \<and>
   isAccessTokenValid stubDecode (holding ''exp2000'' 2000001) = Inr False \<and>
   isAccessTokenValid stubDecode (holding ''exp2000'' 1999999) = Inr True \<and>
   isAccessTokenValid stubDecode (holding ''exp2000'' 2000000) = Inr True"
proof -
  have a: "getTokens (holding x t) = Inr (Some \<lparr>access = Some x, refresh = Some ''r1''\<rparr>) \<and>
           accessOf (Some \<lparr>access = Some x, refresh = Some ''r1''\<rparr>) = Some x"
    if "x \<noteq> []" for x t
    using that by (simp add: accessOf_def holding_def)
  have n: "now (holding x t) = t" for x t
    by (simp add: holding_def storeTokens_def newWorld_def)
  show ?thesis
    using isAccessTokenValid_iff [of stubDecode "holding ''garbage'' 1000000"
        "Some \<lparr>access = Some ''garbage'', refresh = Some ''r1''\<rparr>" "''garbage''"]
      isAccessTokenValid_iff [of stubDecode "holding ''noexp'' 0"
        "Some \<lparr>access = Some ''noexp'', refresh = Some ''r1''\<rparr>" "''noexp''"]
      isAccessTokenValid_iff [of stubDecode "holding ''exp2000'' 2000001"
        "Some \<lparr>access = Some ''exp2000'', refresh = Some ''r1''\<rparr>" "''exp2000''"
        "\<lparr>jwt_exp = Some 2000\<rparr>" 2000]
      isAccessTokenValid_iff [of stubDecode "holding ''exp2000'' 1999999"
        "Some \<lparr>access = Some ''exp2000'', refresh = Some ''r1''\<rparr>" "''exp2000''"
        "\<lparr>jwt_exp = Some 2000\<rparr>" 2000]
      isAccessTokenValid_iff [of stubDecode "holding ''exp2000'' 2000000"
        "Some \<lparr>access = Some ''exp2000'', refresh = Some ''r1''\<rparr>" "''exp2000''"
        "\<lparr>jwt_exp = Some 2000\<rparr>" 2000]
    by (simp add: a n stubDecode_def)
qed

section \<open>Option resolution\<close>

text \<open>
  C8, evaluated where a per-call numeric option is set to zero: the zero is passed over,
  the client-wide value or the hardcoded default is used instead; the same happens to a
  client-wide zero.
\<close>

theorem zero_options_ignored:
  "maxRetries (mergeConfig bareConfig) zeroRetries = 3 \<and>
   delay (mergeConfig bareConfig) zeroRetries = 1000 \<and>
   cacheTime (mergeConfig bareConfig) zeroRetries = 300000 \<and>
   maxRetries (mergeConfig (bareConfig\<lparr>retryCount := Some 5\<rparr>)) zeroRetries = 5 \<and>
   maxRetries (mergeConfig (bareConfig\<lparr>retryCount := Some 0\<rparr>)) noOptions = 3"
  by (simp add: maxRetries_def delay_def cacheTime_def mergeConfig_def bareConfig_def
      zeroRetries_def noOptions_def orDefault_def)

section \<open>Refresh and replay\<close>

text \<open>
  One call of the axios instance posts at most one refresh and dispatches at most twice:
  a request that carries the \<^verbatim>\<open>_retry\<close> mark is dispatched and its outcome returned
  as it is. No GET ever runs the auth-error callback.
\<close>

lemma axiosInstance_marked:
  "rq_retry config \<Longrightarrow>
   axiosInstance net cfg config w =
     (case requestInterceptor w config of
        Inl thrown \<Rightarrow> (Inl thrown, w)
      | Inr sentConfig \<Rightarrow> transport net sentConfig w)"
  by (subst axiosInstance.simps)
    (auto simp: Let_def split: prod.splits sum.splits dest: requestInterceptor_Inr)

lemma refreshToken_posts:
  "length (refresh_posts (snd (refreshToken net cfg w))) \<le> Suc (length (refresh_posts w))"
  by (auto simp: refreshToken_def refresh_start_def refresh_finish_def clearTokens_def
      storeTokens_def split: prod.splits refresh_task.splits option.splits sum.splits
      refresh_body.splits)

lemma axiosInstance_one_refresh:
  "length (refresh_posts (snd (axiosInstance net cfg config w))) \<le> Suc (length (refresh_posts w)) \<and>
   length (sent (snd (axiosInstance net cfg config w))) \<le> length (sent w) + 2"
proof (cases "requestInterceptor w config")
  case (Inl thrown)
  then have "axiosInstance net cfg config w = (Inl thrown, w)"
    by (subst axiosInstance.simps) simp
  then show ?thesis
    by simp
next
  case sc: (Inr sc)
  obtain r w1 where t: "transport net sc w = (r, w1)"
    by (cases "transport net sc w")
  note te = transport_effects [OF t]
  show ?thesis
  proof (cases "\<exists>err. r = Inl err \<and> status err = Some 401 \<and> \<not> rq_retry sc")
    case False
    with sc t have "axiosInstance net cfg config w = (r, w1)"
      by (subst axiosInstance.simps) (auto split: sum.splits)
    with te show ?thesis
      by simp
  next
    case True
    then obtain err where e: "r = Inl err" "status err = Some 401" "\<not> rq_retry sc"
      by blast
    obtain rr w2 where rt: "refreshToken net cfg w1 = (rr, w2)"
      by (cases "refreshToken net cfg w1")
    have k2: "sent w2 = sent w1"
      "length (refresh_posts w2) \<le> Suc (length (refresh_posts w1))"
      using refreshToken_keeps(1) [of net cfg w1] refreshToken_posts [of net cfg w1] rt by simp_all
    have k3: "sent (fireAuthError cfg (clearTokens w2)) = sent w2"
      "refresh_posts (fireAuthError cfg (clearTokens w2)) = refresh_posts w2"
      by (simp_all add: fireAuthError_def clearTokens_def)
    show ?thesis
    proof (cases "\<exists>ts2. rr = Inr True \<and> getTokens w2 = Inr ts2")
      case False
      with sc t e rt have "snd (axiosInstance net cfg config w) = w2
          \<or> snd (axiosInstance net cfg config w) = fireAuthError cfg (clearTokens w2)"
        by (subst (1 2) axiosInstance.simps) (auto simp: Let_def split: sum.splits)
      with te k2 k3 show ?thesis
        by auto
    next
      case True
      then obtain ts2 where b: "rr = Inr True" and g2: "getTokens w2 = Inr ts2"
        by blast
      let ?rq = "sc\<lparr>rq_retry := True, rq_auth := Some (bearer ts2)\<rparr>"
      have unf: "axiosInstance net cfg config w = axiosInstance net cfg ?rq w2"
        using sc t e rt b g2 by (subst axiosInstance.simps) (simp add: Let_def)
      have "snd (axiosInstance net cfg ?rq w2) = w2
          \<or> (\<exists>sc3 r3. transport net sc3 w2 = (r3, snd (axiosInstance net cfg ?rq w2)))"
        by (subst (1 2) axiosInstance_marked) (auto split: sum.splits intro: prod.collapse [symmetric])
      with unf te k2 show ?thesis
        by (auto dest!: transport_effects)
    qed
  qed
qed

lemma get_never_fires_auth_error:
  "auth_errors (snd (get net cfg url opts w)) = auth_errors w"
proof (cases "cacheHit cfg opts (cacheKey url (o_params opts)) w")
  case None
  have "auth_errors (snd (fetch net cfg url opts w)) = auth_errors w"
    by (simp add: fetch_def request_keeps withRetry_preserves [where obs = auth_errors] sleep_def)
  with None show ?thesis
    by (cases "fetch net cfg url opts w") (auto simp: get_miss split: sum.splits)
next
  case (Some cached)
  then show ?thesis
    by (simp add: get_hit)
qed

text \<open>
  C2, evaluated for a default client whose every dispatch is answered with 401 while the
  refresh endpoint answers every post with a new access token: the one call of
  \<open>get\<close> posts four refreshes and dispatches eight requests.
\<close>

theorem persistent_401_refreshes_again:
  "fst (get always401 (mergeConfig bareConfig) ''/items/'' noOptions (loggedIn 0 ()))
     = Inl (HttpError 401 JNull) \<and>
   refresh_posts (snd (get always401 (mergeConfig bareConfig) ''/items/'' noOptions (loggedIn 0 ())))
     = [''r1'', ''r1'', ''r1'', ''r1''] \<and>
   length (sent (snd (get always401 (mergeConfig bareConfig) ''/items/'' noOptions (loggedIn 0 ()))))
     = 8 \<and>
   sleeps (snd (get always401 (mergeConfig bareConfig) ''/items/'' noOptions (loggedIn 0 ())))
     = [1000, 2000, 4000]"
  by code_simp

text \<open>
  C3, evaluated for a client with an auth-error callback and retries off, where the
  dispatch is answered with 401 and the refresh post fails: the tokens are cleared and
  the 401 is the result, but the callback has not run.
\<close>

theorem refresh_failure_skips_callback:
  "onAuthError (mergeConfig bareConfig) \<and>
   fst (get refreshDown (mergeConfig bareConfig) ''/items/'' noRetry (loggedIn 0 ()))
     = Inl (HttpError 401 JNull) \<and>
   refresh_posts (snd (get refreshDown (mergeConfig bareConfig) ''/items/'' noRetry (loggedIn 0 ())))
     = [''r1''] \<and>
   getTokens (snd (get refreshDown (mergeConfig bareConfig) ''/items/'' noRetry (loggedIn 0 ())))
     = Inr None \<and>
   auth_errors (snd (get refreshDown (mergeConfig bareConfig) ''/items/'' noRetry (loggedIn 0 ())))
     = 0"
  by code_simp


section \<open>Properties of concurrent refreshes\<close>

lemma refresh_start_posts:
  "getTokens w = Inr (Some t) \<Longrightarrow> refreshOf (Some t) = Some r \<Longrightarrow> authEndpoints cfg = Some eps \<Longrightarrow>
   refresh_start cfg w =
     (Awaiting t (baseURL cfg @ ep_refresh eps) r, w\<lparr>refresh_posts := refresh_posts w @ [r]\<rparr>)"
  by (simp add: refresh_start_def)

lemma startAll_posts:
  "getTokens w = Inr (Some t) \<Longrightarrow> refreshOf (Some t) = Some r \<Longrightarrow> authEndpoints cfg = Some eps \<Longrightarrow>
   startAll n cfg w =
     (replicate n (Awaiting t (baseURL cfg @ ep_refresh eps) r),
      w\<lparr>refresh_posts := refresh_posts w @ replicate n r\<rparr>)"
proof (induction n arbitrary: w)
  case 0
  then show ?case by simp
next
  case (Suc n)
  let ?w1 = "w\<lparr>refresh_posts := refresh_posts w @ [r]\<rparr>"
  have "getTokens ?w1 = Inr (Some t)"
    using Suc.prems(1) by (simp add: getTokens_def)
  from Suc.IH [OF this Suc.prems(2,3)] Suc.prems show ?case
    by (simp add: refresh_start_posts replicate_app_Cons_same)
qed

lemma finishAll_own_reply:
  "fst (finishAll (map (\<lambda>reply. (Awaiting t url r, reply)) replies) w) = map replyOk replies"
proof (induction replies arbitrary: w)
  case Nil
  then show ?case by simp
next
  case (Cons reply replies)
  obtain b w1 where f: "refresh_finish t reply w = (b, w1)"
    by (cases "refresh_finish t reply w")
  then have "b = replyOk reply"
    by (auto simp: refresh_finish_def replyOk_def split: sum.splits refresh_body.splits)
  with f Cons.IH [of w1] show ?case
    by (simp add: case_prod_unfold)
qed

text \<open>
  C1, as the code has it. When \<open>n\<close> invocations of \<open>refreshToken\<close> start before any of
  them has its reply, with a refresh token stored, each posts the refresh token to the
  refresh endpoint: \<open>n\<close> network calls, not one; and each invocation resolves according to
  the reply to its own post.
\<close>

theorem concurrent_refresh_not_coalesced:
  "getTokens (w :: 'n world) = Inr (Some t) \<and> refreshOf (Some t) = Some r \<and> authEndpoints cfg = Some eps \<longrightarrow>
     refresh_posts (snd (startAll n cfg w)) = refresh_posts w @ replicate n r \<and>
     fst (startAll n cfg w) = replicate n (Awaiting t (baseURL cfg @ ep_refresh eps) r) \<and>
     (\<forall>replies w'. length replies = n \<longrightarrow>
        fst (finishAll (zip (fst (startAll n cfg w)) replies) (w' :: 'n world)) = map replyOk replies)"
proof (intro impI, elim conjE)
  assume a: "getTokens w = Inr (Some t)" "refreshOf (Some t) = Some r" "authEndpoints cfg = Some eps"
  let ?task = "Awaiting t (baseURL cfg @ ep_refresh eps) r"
  have z: "zip (replicate n ?task) replies = map (\<lambda>reply. (?task, reply)) replies"
    if "length replies = n" for replies :: "(error + refresh_body) list"
    using that by (induction replies arbitrary: n) auto
  show "refresh_posts (snd (startAll n cfg w)) = refresh_posts w @ replicate n r \<and>
     fst (startAll n cfg w) = replicate n ?task \<and>
     (\<forall>replies w'. length replies = n \<longrightarrow>
        fst (finishAll (zip (fst (startAll n cfg w)) replies) (w' :: 'n world)) = map replyOk replies)"
    using startAll_posts [OF a, of n] by (simp add: z finishAll_own_reply)
qed

theorem concurrent_refresh_not_coalesced_witness:
  "refresh_posts (snd (startAll 3 (mergeConfig bareConfig) (loggedIn 0 ()))) = [''r1'', ''r1'', ''r1'']"
proof -
  have h: "getTokens (loggedIn 0 ()) = Inr (Some storedPair) \<and> refreshOf (Some storedPair) = Some ''r1'' \<and>
           authEndpoints (mergeConfig bareConfig) = Some defaultEndpoints"
    by (simp add: getTokens_def loggedIn_def storeTokens_def storedPair_def refreshOf_def
        mergeConfig_def bareConfig_def orDefault_def)
  have r: "refresh_posts (loggedIn 0 ()) = []"
    by (simp add: loggedIn_def storeTokens_def newWorld_def)
  have rep: "replicate 3 ''r1'' = [''r1'', ''r1'', ''r1'']"
    by (simp add: numeral_3_eq_3)
  show ?thesis
    using concurrent_refresh_not_coalesced [of "loggedIn 0 ()" storedPair "''r1''"
        "mergeConfig bareConfig" defaultEndpoints 3] h r rep
    by simp
qed

text \<open>
  C1, as stated, fails for two concurrent invocations: two posts reach the refresh
  endpoint, and the two invocations resolve differently when the replies differ.
\<close>

theorem two_refreshes_two_posts:
  "refresh_posts (snd (startAll 2 (mergeConfig bareConfig) (loggedIn 0 ()))) = [''r1'', ''r1''] \<and>
   length (refresh_posts (snd (startAll 2 (mergeConfig bareConfig) (loggedIn 0 ())))) \<noteq> 1 \<and>
   fst (finishAll (zip (fst (startAll 2 (mergeConfig bareConfig) (loggedIn 0 ())))
                      [Inr (Body (Some ''a2'')), Inl (NetworkError ''offline'')])
          (snd (startAll 2 (mergeConfig bareConfig) (loggedIn 0 ()))))
     = [True, False]"
  by code_simp

section \<open>Properties of the cache key\<close>
















lemma endsValue_simps [simp]:
  "endsValue []" "endsValue (CHR '','' # r)" "endsValue (CHR '']'' # r)" "endsValue (CHR ''}'' # r)"
  by (simp_all add: endsValue_def)












end
